theory Spec2Isabelle
  imports Complex_Main
begin

section \<open>Python values and errors\<close>

text \<open>
  The notebook \<^verbatim>\<open>M3-2_Analysis.ipynb\<close> computes with Python floats, which are
  idealised here as real numbers. Every exception the modelled code can raise is a value
  of \<open>error\<close>, and a computation that may raise returns \<open>error + 'a\<close>.
\<close>

datatype error = IndexError | ZeroDivisionError | TypeError | ValueError | LinAlgError

text \<open>
  The dynamically typed values the notebook stores in \<^verbatim>\<open>phase\<close> and
  \<^verbatim>\<open>phase_information\<close>: \<^verbatim>\<open>None\<close>, a string, a float, and the float
  \<^verbatim>\<open>nan\<close> that \<^verbatim>\<open>np.mean\<close> gives for an empty list.
\<close>

datatype pyval = PNone | PStr string | PFloat real | PNaN

text \<open>\<^verbatim>\<open>xs[i]\<close> for an index \<open>i \<ge> 0\<close>: out of range raises \<^verbatim>\<open>IndexError\<close>.\<close>

definition getitem :: "'a list \<Rightarrow> nat \<Rightarrow> error + 'a" where
  "getitem xs i = (if i < length xs then Inr (xs ! i) else Inl IndexError)"

section \<open>Geometry functions\<close>

text \<open>
  \<^verbatim>\<open>def calculate_scattering_vector(d: float) -> float: q = (2 * np.pi) / (d / 10)\<close>.
  The arguments of the three divisions below are Python floats, as annotated, and
  dividing a Python float by zero raises \<^verbatim>\<open>ZeroDivisionError\<close>.
\<close>

definition calculate_scattering_vector :: "real \<Rightarrow> error + real" where
  "calculate_scattering_vector d =
     (if d / 10 = 0 then Inl ZeroDivisionError else Inr ((2 * pi) / (d / 10)))"

text \<open>\<^verbatim>\<open>def calculate_linear_regression(m, x, b): y = m * x + b\<close>\<close>

definition calculate_linear_regression :: "real \<Rightarrow> real \<Rightarrow> real \<Rightarrow> real" where
  "calculate_linear_regression m x b = m * x + b"

text \<open>\<^verbatim>\<open>def calculate_lattice_plane(q): d = (2 * np.pi) / q\<close>\<close>

definition calculate_lattice_plane :: "real \<Rightarrow> error + real" where
  "calculate_lattice_plane q =
     (if q = 0 then Inl ZeroDivisionError else Inr ((2 * pi) / q))"

text \<open>\<^verbatim>\<open>def calculate_lattice_ratio(d, d_0): d_ratio = d / d_0\<close>\<close>

definition calculate_lattice_ratio :: "real \<Rightarrow> real \<Rightarrow> error + real" where
  "calculate_lattice_ratio d d_0 =
     (if d_0 = 0 then Inl ZeroDivisionError else Inr (d / d_0))"

text \<open>\<^verbatim>\<open>def calculate_a_H1(d, h, k): d * np.sqrt((4/3)*((h**2 + k**2 + (h * k))))\<close>\<close>

definition calculate_a_H1 :: "real \<Rightarrow> int \<Rightarrow> int \<Rightarrow> real" where
  "calculate_a_H1 d h k = d * sqrt ((4 / 3) * real_of_int (h\<^sup>2 + k\<^sup>2 + h * k))"

text \<open>\<^verbatim>\<open>def calculate_a_V1(d, h, k, l): d * (np.sqrt((h ** 2) + (k ** 2) + (l ** 2)))\<close>\<close>

definition calculate_a_V1 :: "real \<Rightarrow> int \<Rightarrow> int \<Rightarrow> int \<Rightarrow> real" where
  "calculate_a_V1 d h k l = d * sqrt (real_of_int (h\<^sup>2 + k\<^sup>2 + l\<^sup>2))"

text \<open>\<^verbatim>\<open>def d_reciprocal(peak_center): (peak_center)/(2*np.pi)\<close>\<close>

definition d_reciprocal :: "real \<Rightarrow> real" where
  "d_reciprocal peak_center = peak_center / (2 * pi)"

text \<open>\<^verbatim>\<open>def sqrt_miller(h, k, l): np.sqrt(h**2 + k**2 + l**2)\<close>\<close>

definition sqrt_miller :: "int \<Rightarrow> int \<Rightarrow> int \<Rightarrow> real" where
  "sqrt_miller h k l = sqrt (real_of_int (h\<^sup>2 + k\<^sup>2 + l\<^sup>2))"

section \<open>Phase classifier\<close>

text \<open>The three reference tables local to \<^verbatim>\<open>determine_phase\<close>.\<close>

definition H1 :: "real list" where
  "H1 = [1 / sqrt 3, 1 / sqrt 4, 1 / sqrt 7, 1 / sqrt 9]"

definition V1 :: "real list" where
  "V1 = [1 / sqrt 2, 1 / sqrt 3, 1 / sqrt 4, 1 / sqrt 5]"

definition La :: "real list" where
  "La = [1 / 2, 1 / 3, 1 / 4, 1 / 5]"

text \<open>
  What one pass through a loop body does: leave the function with a value, or go on with
  the next element.
\<close>

datatype 'a flow = Return 'a | Next

text \<open>
  \<^verbatim>\<open>abs(d_ratios[i] - T[i]) < 0.03\<close> for a table \<open>T\<close>; either subscript may raise.
\<close>

definition near :: "real list \<Rightarrow> real list \<Rightarrow> nat \<Rightarrow> error + bool" where
  "near d_ratios T i =
     (case getitem d_ratios i of Inl e \<Rightarrow> Inl e | Inr r \<Rightarrow>
     (case getitem T i of Inl e \<Rightarrow> Inl e | Inr t \<Rightarrow>
        Inr (\<bar>r - t\<bar> < 0.03)))"

text \<open>
  The body of the loop of \<^verbatim>\<open>determine_phase\<close> at index \<open>i\<close>: an
  \<^verbatim>\<open>if/elif/elif/else\<close> chain, each branch a \<^verbatim>\<open>return\<close>.
\<close>

definition determine_phase_body :: "real list \<Rightarrow> nat \<Rightarrow> error + string flow" where
  "determine_phase_body d_ratios i =
     (case near d_ratios H1 i of Inl e \<Rightarrow> Inl e | Inr True \<Rightarrow> Inr (Return ''hexagonal'')
      | Inr False \<Rightarrow>
     (case near d_ratios V1 i of Inl e \<Rightarrow> Inl e | Inr True \<Rightarrow> Inr (Return ''cubic'')
      | Inr False \<Rightarrow>
     (case near d_ratios La i of Inl e \<Rightarrow> Inl e | Inr True \<Rightarrow> Inr (Return ''lamellar'')
      | Inr False \<Rightarrow> Inr (Return ''indeterminate''))))"

text \<open>
  \<^verbatim>\<open>for i, j in enumerate(d_ratios): ...\<close> from index \<open>i\<close> over the remaining
  elements. When the elements run out the function falls off its end, and Python returns
  \<^verbatim>\<open>None\<close>.
\<close>

fun determine_phase_loop :: "real list \<Rightarrow> nat \<Rightarrow> real list \<Rightarrow> error + pyval" where
  "determine_phase_loop d_ratios i [] = Inr PNone"
| "determine_phase_loop d_ratios i (j # rest) =
     (case determine_phase_body d_ratios i of
        Inl e \<Rightarrow> Inl e
      | Inr (Return v) \<Rightarrow> Inr (PStr v)
      | Inr Next \<Rightarrow> determine_phase_loop d_ratios (Suc i) rest)"

definition determine_phase :: "real list \<Rightarrow> error + pyval" where
  "determine_phase d_ratios = determine_phase_loop d_ratios 0 d_ratios"

section \<open>Lattice parameter resolver\<close>

text \<open>\<^verbatim>\<open>np.mean\<close> of a list of floats; of an empty list it is \<^verbatim>\<open>nan\<close> (with a warning).\<close>

definition np_mean :: "real list \<Rightarrow> pyval" where
  "np_mean xs = (if xs = [] then PNaN else PFloat (sum_list xs / real (length xs)))"

text \<open>
  The hexagonal loop, from index \<open>i\<close> over the remaining elements, \<open>a_hex\<close> being the
  list built so far:
  \<^verbatim>\<open>for i, j in enumerate(d_measured):
      a_i = calculate_a_H1(d_measured[i], h[i], k[i]); a_hex.append(a_i)\<close>
\<close>

fun hex_loop ::
  "real list \<Rightarrow> int list \<Rightarrow> int list \<Rightarrow> nat \<Rightarrow> real list \<Rightarrow> real list \<Rightarrow> error + real list"
where
  "hex_loop d_measured h k i [] a_hex = Inr a_hex"
| "hex_loop d_measured h k i (j # rest) a_hex =
     (case getitem d_measured i of Inl e \<Rightarrow> Inl e | Inr d \<Rightarrow>
     (case getitem h i of Inl e \<Rightarrow> Inl e | Inr hi \<Rightarrow>
     (case getitem k i of Inl e \<Rightarrow> Inl e | Inr ki \<Rightarrow>
        hex_loop d_measured h k (Suc i) rest (a_hex @ [calculate_a_H1 d hi ki]))))"

text \<open>
  The cubic loop:
  \<^verbatim>\<open>for i, j in enumerate(d_measured):
      a_i = calculate_a_V1(d_measured[i], h[i], k[i], l[i]); a_cub.append(a_i)\<close>
\<close>

fun cub_loop ::
  "real list \<Rightarrow> int list \<Rightarrow> int list \<Rightarrow> int list \<Rightarrow> nat \<Rightarrow> real list \<Rightarrow> real list
     \<Rightarrow> error + real list"
where
  "cub_loop d_measured h k l i [] a_cub = Inr a_cub"
| "cub_loop d_measured h k l i (j # rest) a_cub =
     (case getitem d_measured i of Inl e \<Rightarrow> Inl e | Inr d \<Rightarrow>
     (case getitem h i of Inl e \<Rightarrow> Inl e | Inr hi \<Rightarrow>
     (case getitem k i of Inl e \<Rightarrow> Inl e | Inr ki \<Rightarrow>
     (case getitem l i of Inl e \<Rightarrow> Inl e | Inr li \<Rightarrow>
        cub_loop d_measured h k l (Suc i) rest (a_cub @ [calculate_a_V1 d hi ki li])))))"

text \<open>
  The cell that resolves the lattice parameter, as a function of the value of
  \<^verbatim>\<open>phase\<close> and of \<^verbatim>\<open>d_measured\<close>; the result is the two-element list
  \<^verbatim>\<open>phase_information\<close>.
\<close>

definition resolve_phase :: "pyval \<Rightarrow> real list \<Rightarrow> error + (pyval \<times> pyval)" where
  "resolve_phase phase d_measured =
     (if phase = PStr ''hexagonal'' then
        (case hex_loop d_measured [1, 1, 2, 2, 3] [0, 1, 0, 1, 0] 0 d_measured [] of
           Inl e \<Rightarrow> Inl e
         | Inr a_hex \<Rightarrow> Inr (phase, np_mean a_hex))
      else if phase = PStr ''cubic'' then
        (case cub_loop d_measured [1, 1, 2, 2, 2] [0, 1, 0, 1, 2] [0, 1, 0, 1, 2] 0 d_measured [] of
           Inl e \<Rightarrow> Inl e
         | Inr a_cub \<Rightarrow> Inr (phase, np_mean a_cub))
      else if phase = PStr ''lamellar'' then
        (case getitem d_measured 0 of
           Inl e \<Rightarrow> Inl e
         | Inr d0 \<Rightarrow> Inr (phase, PFloat d0))
      else Inr (PStr ''indeterminate'', PStr ''-''))"

text \<open>
  \<^verbatim>\<open>d_ratio = [calculate_lattice_ratio(d, d_measured[0]) for d in d_measured[1:]]\<close>:
  \<^verbatim>\<open>d_measured[0]\<close> is evaluated once for each element of the slice, so an empty or
  one-element \<open>d_measured\<close> gives the empty list without a subscript error.
\<close>

fun d_ratio_from :: "real list \<Rightarrow> real list \<Rightarrow> error + real list" where
  "d_ratio_from d_measured [] = Inr []"
| "d_ratio_from d_measured (d # ds) =
     (case getitem d_measured 0 of Inl e \<Rightarrow> Inl e | Inr d_0 \<Rightarrow>
     (case calculate_lattice_ratio d d_0 of Inl e \<Rightarrow> Inl e | Inr r \<Rightarrow>
     (case d_ratio_from d_measured ds of Inl e \<Rightarrow> Inl e | Inr rs \<Rightarrow> Inr (r # rs))))"

definition d_ratio :: "real list \<Rightarrow> error + real list" where
  "d_ratio d_measured = d_ratio_from d_measured (drop 1 d_measured)"

text \<open>
  The two cells in sequence: \<^verbatim>\<open>phase = determine_phase(d_ratio)\<close>, then the resolver.
\<close>

definition phase_information :: "real list \<Rightarrow> error + (pyval \<times> pyval)" where
  "phase_information d_measured =
     (case d_ratio d_measured of Inl e \<Rightarrow> Inl e | Inr rs \<Rightarrow>
     (case determine_phase rs of Inl e \<Rightarrow> Inl e | Inr phase \<Rightarrow>
        resolve_phase phase d_measured))"

section \<open>Calibration\<close>

text \<open>
  The list comprehension \<^verbatim>\<open>[calculate_scattering_vector(d) for d in ds]\<close>: the first
  exception ends it.
\<close>

fun scattering_vectors :: "real list \<Rightarrow> error + real list" where
  "scattering_vectors [] = Inr []"
| "scattering_vectors (d # ds) =
     (case calculate_scattering_vector d of Inl e \<Rightarrow> Inl e | Inr q \<Rightarrow>
     (case scattering_vectors ds of Inl e \<Rightarrow> Inl e | Inr qs \<Rightarrow> Inr (q # qs)))"

definition d_from_literature :: "real list" where
  "d_from_literature = [52.49824535, 26.24912267, 17.49941512]"

definition q_cholpal_literature :: "error + real list" where
  "q_cholpal_literature = scattering_vectors d_from_literature"

text \<open>
  \<^verbatim>\<open>np.polyfit(x, y, 1)\<close> is NumPy's, not this repository's; it is modelled from
  NumPy's documented behaviour. It raises \<^verbatim>\<open>TypeError\<close> for an empty \<open>x\<close> and, checked
  after that, for \<open>x\<close> and \<open>y\<close> of different lengths. Otherwise it solves the
  least-squares problem for the matrix with the rows \<open>(x\<^sub>i, 1)\<close>, each column divided by
  its Euclidean norm:
  \<^item> two different values in \<open>x\<close> give the matrix rank 2, and the unique solution is the
    solution of the normal equations;
  \<^item> equal values \<open>x\<^sub>0 \<noteq> 0\<close> give rank 1: NumPy warns (\<^verbatim>\<open>RankWarning\<close>) and returns the
    solution of minimal norm in the scaled coordinates, the line through
    \<open>(x\<^sub>0, mean y)\<close> and \<open>(0, mean y / 2)\<close>;
  \<^item> values that are all \<open>0\<close> give a column of norm \<open>0\<close>: the scaling divides \<open>0\<close> by
    \<open>0\<close>, and the solver, run on \<^verbatim>\<open>nan\<close>, raises \<^verbatim>\<open>LinAlgError\<close>.
  The result is the pair (slope, intercept).
\<close>

definition full_rank :: "real list \<Rightarrow> bool" where
  "full_rank x = (\<exists>a\<in>set x. a \<noteq> hd x)"

definition normal_det :: "real list \<Rightarrow> real" where
  "normal_det x = real (length x) * sum_list (map (\<lambda>a. a * a) x) - sum_list x * sum_list x"

definition polyfit1 :: "real list \<Rightarrow> real list \<Rightarrow> error + (real \<times> real)" where
  "polyfit1 x y =
     (if x = [] then Inl TypeError
      else if length x \<noteq> length y then Inl TypeError
      else if full_rank x then
        Inr ((real (length x) * sum_list (map2 (*) x y) - sum_list x * sum_list y) / normal_det x,
             (sum_list (map (\<lambda>a. a * a) x) * sum_list y - sum_list x * sum_list (map2 (*) x y))
               / normal_det x)
      else if hd x = 0 then Inl LinAlgError
      else Inr (sum_list y / real (length y) / (2 * hd x), sum_list y / real (length y) / 2))"

text \<open>
  The sum of squared residuals of the line \<open>c = (slope, intercept)\<close>, which the fit has to
  minimise.
\<close>

definition sse :: "real list \<Rightarrow> real list \<Rightarrow> real \<times> real \<Rightarrow> real" where
  "sse x y c = sum_list (map2 (\<lambda>a t. (t - (fst c * a + snd c))\<^sup>2) x y)"

text \<open>
  The calibration cell, as a function of the standard's peak centers and of the literature
  spacings:
  \<^verbatim>\<open>q_cholpal_literature = [calculate_scattering_vector(d) for d in d_from_literature]
  slope, intercept = np.polyfit(x=..., y=q_cholpal_literature, deg=1)\<close>
\<close>

definition calibrate :: "real list \<Rightarrow> real list \<Rightarrow> error + (real \<times> real)" where
  "calibrate peak_centers d_lit =
     (case scattering_vectors d_lit of Inl e \<Rightarrow> Inl e | Inr q \<Rightarrow> polyfit1 peak_centers q)"

section \<open>Cubic phase specification\<close>

text \<open>\<^verbatim>\<open>fit = np.poly1d(coef)\<close> applied to a list: \<open>coef[0] * a + coef[1]\<close> for each element.\<close>

definition poly1d :: "real \<times> real \<Rightarrow> real list \<Rightarrow> real list" where
  "poly1d coef x = map (\<lambda>a. fst coef * a + snd coef) x"

text \<open>
  \<^verbatim>\<open>r2_score(y_true, y_pred)\<close> is scikit-learn's, modelled from its documented
  behaviour: \<^verbatim>\<open>ValueError\<close> for different lengths and for no sample, \<^verbatim>\<open>nan\<close> (with a
  warning) for fewer than two samples; otherwise \<open>1 - numerator / denominator\<close> when both
  sums of squares are non-zero, \<open>0\<close> when only the denominator is zero, and \<open>1\<close> when the
  numerator is zero.
\<close>

definition r2_score :: "real list \<Rightarrow> real list \<Rightarrow> error + pyval" where
  "r2_score y_true y_pred =
     (if length y_true \<noteq> length y_pred then Inl ValueError
      else if y_true = [] then Inl ValueError
      else if length y_pred < 2 then Inr PNaN
      else
        let numerator = sum_list (map2 (\<lambda>t p. (t - p)\<^sup>2) y_true y_pred);
            mean = sum_list y_true / real (length y_true);
            denominator = sum_list (map (\<lambda>t. (t - mean)\<^sup>2) y_true)
        in if numerator \<noteq> 0 \<and> denominator \<noteq> 0 then Inr (PFloat (1 - numerator / denominator))
           else if numerator \<noteq> 0 then Inr (PFloat 0)
           else Inr (PFloat 1))"

text \<open>
  \<^verbatim>\<open>x = [sqrt_miller(h[index], k[index], l[index]) for index, item in enumerate(h)]\<close>,
  from \<open>index\<close> over the remaining items of \<open>h\<close>.
\<close>

fun miller_x :: "int list \<Rightarrow> int list \<Rightarrow> int list \<Rightarrow> nat \<Rightarrow> int list \<Rightarrow> error + real list" where
  "miller_x h k l index [] = Inr []"
| "miller_x h k l index (item # rest) =
     (case getitem h index of Inl e \<Rightarrow> Inl e | Inr hi \<Rightarrow>
     (case getitem k index of Inl e \<Rightarrow> Inl e | Inr ki \<Rightarrow>
     (case getitem l index of Inl e \<Rightarrow> Inl e | Inr li \<Rightarrow>
     (case miller_x h k l (Suc index) rest of Inl e \<Rightarrow> Inl e | Inr xs \<Rightarrow>
        Inr (sqrt_miller hi ki li # xs)))))"

text \<open>
  The two cells of the cubic phase specification, as a function of the Miller indices and
  of the peak centers; the result is \<^verbatim>\<open>coef\<close> and \<^verbatim>\<open>r2\<close>:
  \<^verbatim>\<open>y = [d_reciprocal(_) for _ in scattering_vector]
  coef = np.polyfit(x, y, 1); fit = np.poly1d(coef); r2 = r2_score(y, fit(x))\<close>
\<close>

definition cubic_fit ::
  "int list \<Rightarrow> int list \<Rightarrow> int list \<Rightarrow> real list \<Rightarrow> error + ((real \<times> real) \<times> pyval)" where
  "cubic_fit h k l scattering_vector =
     (case miller_x h k l 0 h of Inl e \<Rightarrow> Inl e | Inr x \<Rightarrow>
      let y = map d_reciprocal scattering_vector in
     (case polyfit1 x y of Inl e \<Rightarrow> Inl e | Inr coef \<Rightarrow>
     (case r2_score y (poly1d coef x) of Inl e \<Rightarrow> Inl e | Inr r2 \<Rightarrow>
        Inr (coef, r2))))"

section \<open>Properties of the phase classifier\<close>

lemma near_0:
  "near (r # rs) (t # ts) 0 = Inr (\<bar>r - t\<bar> < 0.03)"
  by (simp add: near_def getitem_def)

lemma determine_phase_body_0:
  "determine_phase_body (r # rs) 0 =
     Inr (Return (if \<bar>r - 1 / sqrt 3\<bar> < 0.03 then ''hexagonal''
                  else if \<bar>r - 1 / sqrt 2\<bar> < 0.03 then ''cubic''
                  else if \<bar>r - 1 / 2\<bar> < 0.03 then ''lamellar''
                  else ''indeterminate''))"
  unfolding determine_phase_body_def H1_def V1_def La_def near_0
  by simp

text \<open>
  C1. For a non-empty list of spacing ratios the classifier returns after the comparison
  at index 0: \<open>hexagonal\<close> if the first ratio is within 0.03 of \<open>1/sqrt 3\<close>, otherwise
  \<open>cubic\<close> if within 0.03 of \<open>1/sqrt 2\<close>, otherwise \<open>lamellar\<close> if within 0.03 of
  \<open>1/2\<close>, otherwise \<open>indeterminate\<close>; it raises nothing, and the ratios after the first
  have no influence on the result.
\<close>

theorem determine_phase_first_index:
  "determine_phase (r # rs) =
     Inr (PStr (if \<bar>r - 1 / sqrt 3\<bar> < 0.03 then ''hexagonal''
                else if \<bar>r - 1 / sqrt 2\<bar> < 0.03 then ''cubic''
                else if \<bar>r - 1 / 2\<bar> < 0.03 then ''lamellar''
                else ''indeterminate''))
   \<and> determine_phase (r # rs) = determine_phase [r]"
  unfolding determine_phase_def determine_phase_loop.simps determine_phase_body_0
  by simp

lemma sqrt_enclosures:
  "sqrt 2 < 29 / 20" "7 / 5 < sqrt 2" "sqrt 3 < 9 / 5" "17 / 10 < sqrt 3"
proof -
  show "sqrt 2 < 29 / 20" by (rule real_less_lsqrt) (simp_all add: power2_eq_square)
  show "7 / 5 < sqrt 2" by (rule real_less_rsqrt) (simp add: power2_eq_square)
  show "sqrt 3 < 9 / 5" by (rule real_less_lsqrt) (simp_all add: power2_eq_square)
  show "17 / 10 < sqrt 3" by (rule real_less_rsqrt) (simp add: power2_eq_square)
qed

lemma inverse_sqrt_enclosures:
  "53 / 100 < 1 / sqrt 3" "1 / sqrt 3 < 3 / 5" "20 / 29 < 1 / sqrt 2" "1 / sqrt 2 < 73 / 100"
  using sqrt_enclosures by (simp_all add: field_simps)

lemma tolerance_examples:
  "\<not> \<bar>1 / 2 - 1 / sqrt 3\<bar> < (0.03 :: real)" "\<not> \<bar>1 / 2 - 1 / sqrt 2\<bar> < (0.03 :: real)"
  "\<not> \<bar>7 / 10 - 1 / sqrt 3\<bar> < (0.03 :: real)" "\<bar>7 / 10 - 1 / sqrt 2\<bar> < (0.03 :: real)"
  "\<not> \<bar>9 / 10 - 1 / sqrt 3\<bar> < (0.03 :: real)" "\<not> \<bar>9 / 10 - 1 / sqrt 2\<bar> < (0.03 :: real)"
proof -
  have t: "(0.03 :: real) = 3 / 100" by simp
  show "\<not> \<bar>1 / 2 - 1 / sqrt 3\<bar> < (0.03 :: real)" "\<not> \<bar>1 / 2 - 1 / sqrt 2\<bar> < (0.03 :: real)"
  "\<not> \<bar>7 / 10 - 1 / sqrt 3\<bar> < (0.03 :: real)" "\<bar>7 / 10 - 1 / sqrt 2\<bar> < (0.03 :: real)"
  "\<not> \<bar>9 / 10 - 1 / sqrt 3\<bar> < (0.03 :: real)" "\<not> \<bar>9 / 10 - 1 / sqrt 2\<bar> < (0.03 :: real)"
    unfolding t using inverse_sqrt_enclosures by linarith+
qed

theorem determine_phase_first_index_witness:
  "determine_phase [1 / 2, 9 / 10] = Inr (PStr ''lamellar'')
   \<and> determine_phase [1 / sqrt 3] = Inr (PStr ''hexagonal'')
   \<and> determine_phase [7 / 10, 1 / 2] = Inr (PStr ''cubic'')
   \<and> determine_phase [9 / 10, 1 / 2] = Inr (PStr ''indeterminate'')"
  using determine_phase_first_index [of "1 / 2" "[9 / 10]"]
    determine_phase_first_index [of "1 / sqrt 3" "[]"]
    determine_phase_first_index [of "7 / 10" "[1 / 2]"]
    determine_phase_first_index [of "9 / 10" "[1 / 2]"]
  by (simp only: tolerance_examples if_True if_False) simp

section \<open>Properties of the resolver\<close>

lemma hex_loop_in_bounds:
  "i + length rest = length dm \<Longrightarrow> length dm \<le> length h \<Longrightarrow> length dm \<le> length k \<Longrightarrow>
   hex_loop dm h k i rest acc =
     Inr (acc @ map (\<lambda>n. calculate_a_H1 (dm ! n) (h ! n) (k ! n)) [i..<length dm])"
proof (induction rest arbitrary: i acc)
  case Nil
  then show ?case by simp
next
  case (Cons j rest)
  from Cons.prems have lt: "i < length dm" "i < length h" "i < length k"
    by simp_all
  from Cons.prems have "Suc i + length rest = length dm"
    by simp
  from Cons.IH [OF this Cons.prems(2,3)] lt show ?case
    by (simp add: getitem_def upt_conv_Cons)
qed

lemma hex_loop_out_of_bounds:
  "i + length rest = length dm \<Longrightarrow> length h < length dm \<or> length k < length dm \<Longrightarrow>
   i \<le> length h \<Longrightarrow> i \<le> length k \<Longrightarrow>
   hex_loop dm h k i rest acc = Inl IndexError"
proof (induction rest arbitrary: i acc)
  case Nil
  then show ?case by auto
next
  case (Cons j rest)
  from Cons.prems have lt: "i < length dm"
    by simp
  show ?case
  proof (cases "i < length h \<and> i < length k")
    case True
    from Cons.prems have "Suc i + length rest = length dm"
      by simp
    from Cons.IH [OF this Cons.prems(2)] True lt show ?thesis
      by (simp add: getitem_def)
  next
    case False
    with lt show ?thesis
      by (auto simp add: getitem_def)
  qed
qed

lemma cub_loop_in_bounds:
  "i + length rest = length dm \<Longrightarrow> length dm \<le> length h \<Longrightarrow> length dm \<le> length k \<Longrightarrow>
   length dm \<le> length l \<Longrightarrow>
   cub_loop dm h k l i rest acc =
     Inr (acc @ map (\<lambda>n. calculate_a_V1 (dm ! n) (h ! n) (k ! n) (l ! n)) [i..<length dm])"
proof (induction rest arbitrary: i acc)
  case Nil
  then show ?case by simp
next
  case (Cons j rest)
  from Cons.prems have lt: "i < length dm" "i < length h" "i < length k" "i < length l"
    by simp_all
  from Cons.prems have "Suc i + length rest = length dm"
    by simp
  from Cons.IH [OF this Cons.prems(2,3,4)] lt show ?case
    by (simp add: getitem_def upt_conv_Cons)
qed

lemma cub_loop_out_of_bounds:
  "i + length rest = length dm \<Longrightarrow>
   length h < length dm \<or> length k < length dm \<or> length l < length dm \<Longrightarrow>
   i \<le> length h \<Longrightarrow> i \<le> length k \<Longrightarrow> i \<le> length l \<Longrightarrow>
   cub_loop dm h k l i rest acc = Inl IndexError"
proof (induction rest arbitrary: i acc)
  case Nil
  then show ?case by auto
next
  case (Cons j rest)
  from Cons.prems have lt: "i < length dm"
    by simp
  show ?case
  proof (cases "i < length h \<and> i < length k \<and> i < length l")
    case True
    from Cons.prems have "Suc i + length rest = length dm"
      by simp
    from Cons.IH [OF this Cons.prems(2)] True lt show ?thesis
      by (simp add: getitem_def)
  next
    case False
    with lt show ?thesis
      by (auto simp add: getitem_def)
  qed
qed

lemma map_index_zip2:
  "length ds \<le> length h \<Longrightarrow> length ds \<le> length k \<Longrightarrow>
   map (\<lambda>n. f (ds ! n) (h ! n) (k ! n)) [0..<length ds] =
   map (\<lambda>(d, x, y). f d x y) (zip ds (zip h k))"
  by (rule nth_equalityI) simp_all

lemma hex_loop_table:
  assumes "length ds \<le> 5"
  shows "hex_loop ds [1, 1, 2, 2, 3] [0, 1, 0, 1, 0] 0 ds [] =
           Inr (map (\<lambda>(d, h, k). calculate_a_H1 d h k)
                  (zip ds [(1, 0), (1, 1), (2, 0), (2, 1), (3, 0)]))"
proof -
  let ?h = "[1, 1, 2, 2, 3] :: int list" and ?k = "[0, 1, 0, 1, 0] :: int list"
  have len: "length ds \<le> length ?h" "length ds \<le> length ?k"
    using assms by simp_all
  have "hex_loop ds ?h ?k 0 ds [] =
          Inr (map (\<lambda>n. calculate_a_H1 (ds ! n) (?h ! n) (?k ! n)) [0..<length ds])"
    using hex_loop_in_bounds [of 0 ds ds ?h ?k "[]"] len by simp
  also have "map (\<lambda>n. calculate_a_H1 (ds ! n) (?h ! n) (?k ! n)) [0..<length ds] =
             map (\<lambda>(d, x, y). calculate_a_H1 d x y) (zip ds (zip ?h ?k))"
    using len by (rule map_index_zip2)
  finally show ?thesis by simp
qed

text \<open>
  C4. For the phase \<open>hexagonal\<close> and \<open>n\<close> measured spacings, \<open>1 \<le> n \<le> 5\<close>, the resolver
  raises nothing and its value is the arithmetic mean of
  \<open>d\<^sub>i * sqrt ((4/3) * (h\<^sub>i\<^sup>2 + k\<^sub>i\<^sup>2 + h\<^sub>i * k\<^sub>i))\<close> over the first \<open>n\<close> entries of the
  table \<open>[(1,0),(1,1),(2,0),(2,1),(3,0)]\<close>; for two spacings it is the mean of
  \<open>calculate_a_H1 d0 1 0\<close> and \<open>calculate_a_H1 d1 1 1\<close>.
\<close>

theorem resolve_hexagonal_mean:
  assumes "ds \<noteq> []" and "length ds \<le> 5"
  shows "resolve_phase (PStr ''hexagonal'') ds =
           Inr (PStr ''hexagonal'',
                PFloat (sum_list (map (\<lambda>(d, h, k). d * sqrt ((4 / 3) * real_of_int (h\<^sup>2 + k\<^sup>2 + h * k)))
                                   (zip ds [(1, 0), (1, 1), (2, 0), (2, 1), (3, 0)]))
                        / real (length ds)))
       \<and> resolve_phase (PStr ''hexagonal'') [d0, d1] =
           Inr (PStr ''hexagonal'', PFloat ((calculate_a_H1 d0 1 0 + calculate_a_H1 d1 1 1) / 2))"
proof
  have "zip ds [(1::int, 0::int), (1, 1), (2, 0), (2, 1), (3, 0)] \<noteq> []"
    using assms(1) by (cases ds) simp_all
  then show "resolve_phase (PStr ''hexagonal'') ds =
           Inr (PStr ''hexagonal'',
                PFloat (sum_list (map (\<lambda>(d, h, k). d * sqrt ((4 / 3) * real_of_int (h\<^sup>2 + k\<^sup>2 + h * k)))
                                   (zip ds [(1, 0), (1, 1), (2, 0), (2, 1), (3, 0)]))
                        / real (length ds)))"
    using assms(2)
    by (simp add: resolve_phase_def hex_loop_table np_mean_def calculate_a_H1_def [abs_def])
  have "length [d0, d1] \<le> 5"
    by simp
  from hex_loop_table [OF this]
  show "resolve_phase (PStr ''hexagonal'') [d0, d1] =
           Inr (PStr ''hexagonal'', PFloat ((calculate_a_H1 d0 1 0 + calculate_a_H1 d1 1 1) / 2))"
    by (simp add: resolve_phase_def np_mean_def)
qed

theorem resolve_hexagonal_mean_witness:
  "[3, 2] \<noteq> ([] :: real list) \<and> length [3, 2 :: real] \<le> 5
   \<and> resolve_phase (PStr ''hexagonal'') [3, 2] =
       Inr (PStr ''hexagonal'', PFloat ((3 * sqrt (4 / 3) + 2 * sqrt 4) / 2))"
  using resolve_hexagonal_mean [of "[3, 2]" 3 2]
  by simp

text \<open>
  C5. For the phase \<open>lamellar\<close> and a non-empty list of measured spacings the resolver's
  value is the first spacing itself, whatever the other spacings are.
\<close>

theorem resolve_lamellar_first:
  "resolve_phase (PStr ''lamellar'') (d0 # ds) = Inr (PStr ''lamellar'', PFloat d0)"
  by (simp add: resolve_phase_def getitem_def)

text \<open>
  C9. For the phase \<open>indeterminate\<close> the resolver raises nothing, whatever the measured
  spacings are, and returns the label \<open>indeterminate\<close> with the string \<open>-\<close>.
\<close>

theorem resolve_indeterminate_sentinel:
  "resolve_phase (PStr ''indeterminate'') ds = Inr (PStr ''indeterminate'', PStr ''-'')"
  by (simp add: resolve_phase_def)

text \<open>
  C10. In the hexagonal and in the cubic branch the index lists have five entries and the
  loop runs over every measured spacing: the resolver returns a result exactly when there
  are at most five measured spacings, and with six or more the subscript raises
  \<open>IndexError\<close>.
\<close>

theorem resolve_in_bounds_iff:
  "((\<exists>v. resolve_phase (PStr ''hexagonal'') ds = Inr v) \<longleftrightarrow> length ds \<le> 5)
   \<and> ((\<exists>v. resolve_phase (PStr ''cubic'') ds = Inr v) \<longleftrightarrow> length ds \<le> 5)
   \<and> (6 \<le> length ds \<longrightarrow>
        resolve_phase (PStr ''hexagonal'') ds = Inl IndexError
        \<and> resolve_phase (PStr ''cubic'') ds = Inl IndexError)"
proof (cases "length ds \<le> 5")
  case True
  then have "hex_loop ds [1, 1, 2, 2, 3] [0, 1, 0, 1, 0] 0 ds [] =
               Inr ([] @ map (\<lambda>n. calculate_a_H1 (ds ! n) ([1, 1, 2, 2, 3] ! n) ([0, 1, 0, 1, 0] ! n))
                           [0..<length ds])"
    by (intro hex_loop_in_bounds) simp_all
  moreover from True
  have "cub_loop ds [1, 1, 2, 2, 2] [0, 1, 0, 1, 2] [0, 1, 0, 1, 2] 0 ds [] =
          Inr ([] @ map (\<lambda>n. calculate_a_V1 (ds ! n) ([1, 1, 2, 2, 2] ! n) ([0, 1, 0, 1, 2] ! n)
                               ([0, 1, 0, 1, 2] ! n)) [0..<length ds])"
    by (intro cub_loop_in_bounds) simp_all
  ultimately show ?thesis
    using True by (simp add: resolve_phase_def)
next
  case False
  then have "hex_loop ds [1, 1, 2, 2, 3] [0, 1, 0, 1, 0] 0 ds [] = Inl IndexError"
    by (intro hex_loop_out_of_bounds) simp_all
  moreover from False
  have "cub_loop ds [1, 1, 2, 2, 2] [0, 1, 0, 1, 2] [0, 1, 0, 1, 2] 0 ds [] = Inl IndexError"
    by (intro cub_loop_out_of_bounds) simp_all
  ultimately show ?thesis
    using False by (simp add: resolve_phase_def)
qed

theorem resolve_in_bounds_iff_witness:
  "6 \<le> length [1, 2, 3, 4, 5, 6 :: real]
   \<and> resolve_phase (PStr ''hexagonal'') [1, 2, 3, 4, 5, 6] = Inl IndexError
   \<and> resolve_phase (PStr ''cubic'') [1, 2, 3, 4, 5, 6] = Inl IndexError
   \<and> (\<exists>v. resolve_phase (PStr ''hexagonal'') [1, 2, 3, 4, 5] = Inr v)
   \<and> (\<exists>v. resolve_phase (PStr ''cubic'') [1, 2, 3, 4, 5] = Inr v)"
  using resolve_in_bounds_iff [of "[1, 2, 3, 4, 5, 6]"]
    resolve_in_bounds_iff [of "[1, 2, 3, 4, 5]"]
  by simp

section \<open>The empty list of ratios\<close>

text \<open>
  C2. Called with the empty list, the loop of \<open>determine_phase\<close> has no pass, the function
  falls off its end and the call evaluates to \<open>None\<close>: it neither raises nor returns
  \<open>indeterminate\<close>. The empty list is what a single measured spacing gives as
  \<open>d_ratio\<close>; the resolver's last branch then takes \<open>None\<close> for an indeterminate phase.
\<close>

theorem determine_phase_empty_none:
  "determine_phase [] = Inr PNone
   \<and> d_ratio [d] = Inr []
   \<and> phase_information [d] = Inr (PStr ''indeterminate'', PStr ''-'')"
  by (simp add: determine_phase_def d_ratio_def phase_information_def resolve_phase_def)

section \<open>Round trip of the conversions\<close>

text \<open>
  C6. For every \<open>d > 0\<close>, converting the spacing \<open>d * 10\<close> to a scattering vector and the
  scattering vector back to a spacing raises nothing and returns \<open>d\<close>.
\<close>

theorem spacing_round_trip:
  assumes "0 < d"
  shows "(case calculate_scattering_vector (d * 10) of
            Inl e \<Rightarrow> Inl e
          | Inr q \<Rightarrow> calculate_lattice_plane q) = Inr d"
  using assms
  by (simp add: calculate_scattering_vector_def calculate_lattice_plane_def)

theorem spacing_round_trip_witness:
  "(0::real) < 7 / 2
   \<and> (case calculate_scattering_vector (7 / 2 * 10) of
         Inl e \<Rightarrow> Inl e
       | Inr q \<Rightarrow> calculate_lattice_plane q) = Inr (7 / 2)"
  using spacing_round_trip [of "7 / 2"]
  by simp

section \<open>The literature scattering vectors\<close>

text \<open>
  Partial sums of the arctangent series enclose the arctangent, and Machin's formula turns
  two such enclosures into an enclosure of \<open>pi\<close>.
\<close>

lemma arctan_partial_sums:
  fixes x :: real
  assumes "0 < x" and "x \<le> 1"
  shows "(\<Sum>k<2 * n. (- 1) ^ k * (1 / real (k * 2 + 1) * x ^ (k * 2 + 1))) \<le> arctan x
       \<and> arctan x \<le> (\<Sum>k<2 * n + 1. (- 1) ^ k * (1 / real (k * 2 + 1) * x ^ (k * 2 + 1)))"
proof -
  let ?a = "\<lambda>k. 1 / real (k * 2 + 1) * x ^ (k * 2 + 1)"
  have ab: "\<bar>x\<bar> \<le> 1"
    using assms by simp
  have pos: "0 < ?a 0"
    using assms by simp
  from summable_Leibniz(2) [OF zeroseq_arctan_series [OF ab] monoseq_arctan_series [OF ab]] pos
  have "(\<Sum>i. (- 1) ^ i * ?a i) \<in> {\<Sum>i<2 * n. (- 1) ^ i * ?a i .. \<Sum>i<2 * n + 1. (- 1) ^ i * ?a i}"
    by blast
  then show ?thesis
    unfolding arctan_series [OF ab] by simp
qed

lemma pi_enclosure: "3.1415926526 < pi \<and> pi < 3.1415926537"
proof -
  have m: "pi = 16 * arctan (1 / 5) - 4 * arctan (1 / 239)"
    using machin by simp
  have a5: "(\<Sum>k<6. (- 1) ^ k * (1 / real (k * 2 + 1) * (1 / 5) ^ (k * 2 + 1))) \<le> arctan (1 / 5 :: real)"
       "arctan (1 / 5 :: real) \<le> (\<Sum>k<7. (- 1) ^ k * (1 / real (k * 2 + 1) * (1 / 5) ^ (k * 2 + 1)))"
    using arctan_partial_sums [of "1 / 5" 3] by simp_all
  have a239: "(\<Sum>k<2. (- 1) ^ k * (1 / real (k * 2 + 1) * (1 / 239) ^ (k * 2 + 1))) \<le> arctan (1 / 239 :: real)"
       "arctan (1 / 239 :: real) \<le> (\<Sum>k<3. (- 1) ^ k * (1 / real (k * 2 + 1) * (1 / 239) ^ (k * 2 + 1)))"
    using arctan_partial_sums [of "1 / 239" 1] by simp_all
  show ?thesis
    unfolding m using a5 a239
    by (simp add: eval_nat_numeral)
qed

text \<open>
  C7. The conversion of the reference spacings \<open>[52.49824535, 26.24912267, 17.49941512]\<close>
  raises nothing and gives three values whose leading digits are \<open>1.19683720\<close>,
  \<open>2.39367440\<close> and \<open>3.59051160\<close>: nine significant figures each.
\<close>

theorem q_cholpal_literature_digits:
  "\<exists>q1 q2 q3. q_cholpal_literature = Inr [q1, q2, q3]
     \<and> 1.19683720 \<le> q1 \<and> q1 < 1.19683721
     \<and> 2.39367440 \<le> q2 \<and> q2 < 2.39367441
     \<and> 3.59051160 \<le> q3 \<and> q3 < 3.59051161"
proof -
  have "q_cholpal_literature =
          Inr [2 * pi / (52.49824535 / 10), 2 * pi / (26.24912267 / 10), 2 * pi / (17.49941512 / 10)]"
    by (simp add: q_cholpal_literature_def d_from_literature_def calculate_scattering_vector_def)
  moreover have "1.19683720 \<le> 2 * pi / (52.49824535 / 10)" "2 * pi / (52.49824535 / 10) < 1.19683721"
    using pi_enclosure by (simp_all add: field_simps)
  moreover have "2.39367440 \<le> 2 * pi / (26.24912267 / 10)" "2 * pi / (26.24912267 / 10) < 2.39367441"
    using pi_enclosure by (simp_all add: field_simps)
  moreover have "3.59051160 \<le> 2 * pi / (17.49941512 / 10)" "2 * pi / (17.49941512 / 10) < 3.59051161"
    using pi_enclosure by (simp_all add: field_simps)
  ultimately show ?thesis
    by blast
qed

section \<open>The model of the linear fit\<close>

text \<open>
  With two different values in \<open>x\<close> the normal equations have a unique solution, and the
  pair \<open>polyfit1\<close> returns minimises the sum of squared residuals; on points of a line it is
  that line.
\<close>

lemma sum_sq_shift:
  "sum_list (map (\<lambda>a. (a - c) * (a - c)) (xs :: real list)) =
     sum_list (map (\<lambda>a. a * a) xs) - 2 * c * sum_list xs + real (length xs) * (c * c)"
  by (induction xs) (simp_all add: algebra_simps)

lemma sum_sq_zero:
  "sum_list (map (\<lambda>a. (a - c) * (a - c)) (xs :: real list)) = 0 \<Longrightarrow> a \<in> set xs \<Longrightarrow> a = c"
proof -
  assume z: "sum_list (map (\<lambda>a. (a - c) * (a - c)) xs) = 0" and a: "a \<in> set xs"
  have "\<forall>v\<in>set (map (\<lambda>a. (a - c) * (a - c)) xs). v = 0"
    using z by (subst (asm) sum_list_nonneg_eq_0_iff) auto
  with a have "(a - c) * (a - c) = 0" by auto
  then show "a = c" by simp
qed

lemma normal_det_nonzero:
  assumes "full_rank x"
  shows "normal_det x \<noteq> 0"
proof
  assume d: "normal_det x = 0"
  from assms obtain a where a: "a \<in> set x" "a \<noteq> hd x"
    by (auto simp add: full_rank_def)
  then have ne: "x \<noteq> []" by auto
  then have n: "real (length x) \<noteq> 0" by simp
  let ?c = "sum_list x / real (length x)"
  have "real (length x) * sum_list (map (\<lambda>a. (a - ?c) * (a - ?c)) x) = normal_det x"
    unfolding sum_sq_shift normal_det_def using n by (simp add: field_simps)
  with d n have z: "sum_list (map (\<lambda>a. (a - ?c) * (a - ?c)) x) = 0"
    by simp
  have "hd x \<in> set x" using ne by simp
  from sum_sq_zero [OF z this] sum_sq_zero [OF z a(1)] a(2) show False
    by simp
qed


lemma sse_shift:
  assumes "length x = length y"
  shows "sse x y (m', b') =
           sse x y (m, b)
           + 2 * ((m - m') * (sum_list (map2 (*) x y) - m * sum_list (map (\<lambda>a. a * a) x) - b * sum_list x)
                  + (b - b') * (sum_list y - m * sum_list x - real (length x) * b))
           + sum_list (map (\<lambda>a. ((m - m') * a + (b - b'))\<^sup>2) x)"
  using assms
  by (induction x y rule: list_induct2) (simp_all add: sse_def power2_eq_square algebra_simps)

lemma polyfit1_least_squares:
  assumes "full_rank x" and "length x = length y"
  shows "\<exists>c. polyfit1 x y = Inr c \<and> (\<forall>c'. sse x y c \<le> sse x y c')"
proof -
  let ?n = "real (length x)" and ?sx = "sum_list x" and ?sy = "sum_list y"
  let ?sxx = "sum_list (map (\<lambda>a. a * a) x)" and ?sxy = "sum_list (map2 (*) x y)"
  define m where "m = (?n * ?sxy - ?sx * ?sy) / normal_det x"
  define b where "b = (?sxx * ?sy - ?sx * ?sxy) / normal_det x"
  have d: "normal_det x \<noteq> 0"
    using assms(1) by (rule normal_det_nonzero)
  have ne: "x \<noteq> []"
    using assms(1) by (auto simp add: full_rank_def)
  have fit: "polyfit1 x y = Inr (m, b)"
    using ne assms by (simp add: polyfit1_def m_def b_def)
  have d': "?n * ?sxx - ?sx * ?sx \<noteq> 0"
    using d by (simp add: normal_det_def)
  have n1: "?sxy - m * ?sxx - b * ?sx = 0"
    unfolding m_def b_def normal_det_def using d' by (simp add: field_simps)
  have n2: "?sy - m * ?sx - ?n * b = 0"
    unfolding m_def b_def normal_det_def using d' by (simp add: field_simps)
  have "sse x y (m, b) \<le> sse x y c'" for c'
  proof -
    have "0 \<le> sum_list (map (\<lambda>a. ((m - fst c') * a + (b - snd c'))\<^sup>2) x)"
      by (rule sum_list_nonneg) auto
    then show ?thesis
      using sse_shift [OF assms(2), of "fst c'" "snd c'" m b] n1 n2 by simp
  qed
  with fit show ?thesis
    by blast
qed

lemma sums_on_line:
  "sum_list (map (\<lambda>a. m * a + b) xs) = m * sum_list xs + real (length xs) * (b :: real)"
  "sum_list (map2 (*) xs (map (\<lambda>a. m * a + b) xs)) = m * sum_list (map (\<lambda>a. a * a) xs) + b * sum_list xs"
  by (induction xs) (simp_all add: algebra_simps)

lemma polyfit1_exact_line:
  assumes "full_rank xs"
  shows "polyfit1 xs (map (\<lambda>a. m * a + b) xs) = Inr (m, b)"
proof -
  have ne: "xs \<noteq> []"
    using assms by (auto simp add: full_rank_def)
  have d: "normal_det xs \<noteq> 0"
    using assms by (rule normal_det_nonzero)
  let ?n = "real (length xs)" and ?sx = "sum_list xs" and ?sxx = "sum_list (map (\<lambda>a. a * a) xs)"
  have "?n * (m * ?sxx + b * ?sx) - ?sx * (m * ?sx + ?n * b) = m * normal_det xs"
    by (simp add: normal_det_def algebra_simps)
  moreover have "?sxx * (m * ?sx + ?n * b) - ?sx * (m * ?sxx + b * ?sx) = b * normal_det xs"
    by (simp add: normal_det_def algebra_simps)
  ultimately show ?thesis
    using ne assms d by (simp add: polyfit1_def sums_on_line)
qed

lemma full_rank_length: "full_rank xs \<Longrightarrow> 2 \<le> length xs"
  by (cases xs rule: list.exhaust; cases "tl xs") (auto simp add: full_rank_def)

lemma r2_score_same:
  assumes "2 \<le> length ys"
  shows "r2_score ys ys = Inr (PFloat 1)"
proof -
  have "sum_list (map2 (\<lambda>t p. (t - p)\<^sup>2) ys ys) = (0::real)"
    by (induction ys) simp_all
  with assms show ?thesis
    by (auto simp add: r2_score_def Let_def)
qed


text \<open>
  In the rank-deficient branch the returned line passes through the point
  \<open>(x\<^sub>0, mean y)\<close>, so it is a least-squares solution as well.
\<close>

lemma polyfit1_deficient_through_mean:
  assumes "x \<noteq> []" and "length x = length y" and "\<not> full_rank x" and "hd x \<noteq> 0"
  shows "\<exists>m b. polyfit1 x y = Inr (m, b) \<and> m * hd x + b = sum_list y / real (length y)"
  using assms by (simp add: polyfit1_def field_simps)

section \<open>Properties of the cubic phase specification\<close>

lemma miller_x_in_bounds:
  "i + length rest = length h \<Longrightarrow> length h \<le> length k \<Longrightarrow> length h \<le> length l \<Longrightarrow>
   miller_x h k l i rest = Inr (map (\<lambda>n. sqrt_miller (h ! n) (k ! n) (l ! n)) [i..<length h])"
proof (induction rest arbitrary: i)
  case Nil
  then show ?case by simp
next
  case (Cons item rest)
  from Cons.prems have lt: "i < length h" "i < length k" "i < length l"
    by simp_all
  from Cons.prems have "Suc i + length rest = length h"
    by simp
  from Cons.IH [OF this Cons.prems(2,3)] lt show ?case
    by (simp add: getitem_def upt_conv_Cons)
qed

lemma full_rank_nth:
  assumes "i < length xs" and "j < length xs" and "xs ! i \<noteq> xs ! j"
  shows "full_rank xs"
proof -
  have "xs ! i \<noteq> hd xs \<or> xs ! j \<noteq> hd xs"
    using assms(3) by auto
  with assms(1,2) show ?thesis
    unfolding full_rank_def by (metis nth_mem)
qed

text \<open>
  C8. When the index lists and the peak centers have one length, the points
  \<open>(sqrt_miller h\<^sub>i k\<^sub>i l\<^sub>i, d_reciprocal q\<^sub>i)\<close> lie on the line \<open>y = m * x + b\<close> and two
  of the \<open>x\<close> values differ, the fit raises nothing, returns the slope \<open>m\<close> and the
  intercept \<open>b\<close>, and the coefficient of determination is 1.
\<close>

theorem cubic_fit_exact_line:
  assumes "length k = length h" and "length l = length h" and "length q = length h"
    and "\<forall>i<length h. d_reciprocal (q ! i) = m * sqrt_miller (h ! i) (k ! i) (l ! i) + b"
    and "\<exists>i<length h. \<exists>j<length h.
           sqrt_miller (h ! i) (k ! i) (l ! i) \<noteq> sqrt_miller (h ! j) (k ! j) (l ! j)"
  shows "cubic_fit h k l q = Inr ((m, b), PFloat 1)"
proof -
  define x where "x = map (\<lambda>n. sqrt_miller (h ! n) (k ! n) (l ! n)) [0..<length h]"
  have mx: "miller_x h k l 0 h = Inr x"
    unfolding x_def using assms(1,2) by (intro miller_x_in_bounds) simp_all
  have y: "map d_reciprocal q = map (\<lambda>a. m * a + b) x"
    using assms(3,4) by (intro nth_equalityI) (simp_all add: x_def)
  from assms(5) obtain i j where "i < length x" "j < length x" "x ! i \<noteq> x ! j"
    by (auto simp add: x_def)
  then have fr: "full_rank x"
    by (rule full_rank_nth)
  then have "2 \<le> length (map (\<lambda>a. m * a + b) x)"
    using full_rank_length [of x] by simp
  then have "r2_score (map (\<lambda>a. m * a + b) x) (map (\<lambda>a. m * a + b) x) = Inr (PFloat 1)"
    by (rule r2_score_same)
  then show ?thesis
    by (simp add: cubic_fit_def mx y polyfit1_exact_line [OF fr] poly1d_def)
qed

theorem cubic_fit_exact_line_witness:
  "cubic_fit [1, 2] [0, 0] [0, 0] [6 * pi, 10 * pi] = Inr ((2, 1), PFloat 1)"
proof -
  have line: "\<forall>i<length [1, 2 :: int].
      d_reciprocal ([6 * pi, 10 * pi] ! i) = 2 * sqrt_miller ([1, 2] ! i) ([0, 0] ! i) ([0, 0] ! i) + 1"
    by (simp add: less_Suc_eq d_reciprocal_def sqrt_miller_def)
  have "sqrt_miller ([1, 2] ! 0) ([0, 0] ! 0) ([0, 0] ! 0) \<noteq> sqrt_miller ([1, 2] ! 1) ([0, 0] ! 1) ([0, 0] ! 1)"
    by (simp add: sqrt_miller_def)
  then have two: "\<exists>i<length [1, 2 :: int]. \<exists>j<length [1, 2 :: int].
      sqrt_miller ([1, 2] ! i) ([0, 0] ! i) ([0, 0] ! i) \<noteq> sqrt_miller ([1, 2] ! j) ([0, 0] ! j) ([0, 0] ! j)"
    by (intro exI [of _ 0] exI [of _ 1] conjI) simp_all
  show ?thesis
    using cubic_fit_exact_line [of "[0, 0]" "[1, 2]" "[0, 0]" "[6 * pi, 10 * pi]" 2 1, OF _ _ _ line two]
    by simp
qed

section \<open>Properties of the calibration\<close>

lemma scattering_vectors_eq:
  "scattering_vectors ds =
     (if 0 \<in> set ds then Inl ZeroDivisionError else Inr (map (\<lambda>d. 2 * pi / (d / 10)) ds))"
  by (induction ds) (auto simp add: calculate_scattering_vector_def)

text \<open>
  One calibration point is fewer than two, and the fit of the peak center \<open>100\<close> to the
  spacing \<open>52.49824535\<close> raises nothing: it returns a slope and an intercept.
\<close>

theorem calibrate_one_point_counterexample:
  "calibrate [100] [52.49824535] =
     Inr (2 * pi / (52.49824535 / 10) / (2 * 100), 2 * pi / (52.49824535 / 10) / 2)"
  by (simp add: calibrate_def calculate_scattering_vector_def polyfit1_def full_rank_def)

text \<open>
  C3, amended. The calibration fit raises an error when it is given no peak center and
  when the peak centers and the reference spacings differ in length: \<open>TypeError\<close>, or
  \<open>ZeroDivisionError\<close> when a reference spacing is \<open>0\<close>. Given one peak center \<open>x0 \<noteq> 0\<close>
  and one reference spacing \<open>d0 \<noteq> 0\<close> it raises nothing and returns the slope
  \<open>q / (2 * x0)\<close> and the intercept \<open>q / 2\<close>, where \<open>q = 2 * pi / (d0 / 10)\<close>.
\<close>

theorem calibrate_failures:
  "(peak_centers = [] \<or> length peak_centers \<noteq> length d_lit \<longrightarrow>
      calibrate peak_centers d_lit = Inl (if 0 \<in> set d_lit then ZeroDivisionError else TypeError))
   \<and> (x0 \<noteq> 0 \<and> d0 \<noteq> 0 \<longrightarrow>
        calibrate [x0] [d0] = Inr (2 * pi / (d0 / 10) / (2 * x0), 2 * pi / (d0 / 10) / 2))"
  by (auto simp add: calibrate_def scattering_vectors_eq polyfit1_def full_rank_def)

theorem calibrate_failures_witness:
  "calibrate [] [52.49824535, 26.24912267, 17.49941512] = Inl TypeError
   \<and> calibrate [100, 200] [52.49824535, 26.24912267, 17.49941512] = Inl TypeError
   \<and> calibrate [100] [52.49824535] =
       Inr (2 * pi / (52.49824535 / 10) / (2 * 100), 2 * pi / (52.49824535 / 10) / 2)"
  using calibrate_failures [of "[]" "[52.49824535, 26.24912267, 17.49941512]" 100 "52.49824535"]
    calibrate_failures [of "[100, 200]" "[52.49824535, 26.24912267, 17.49941512]" 100 "52.49824535"]
  by simp

end
